theory Spec2Isabelle
  imports Main
begin

section \<open>Python values\<close>

text \<open>
  The program handles values typed \<open>Any\<close>: whatever \<open>response.json()\<close> parsed. They are
  the Python images of JSON values. \<open>PNone\<close> is \<open>None\<close> (also the image of JSON
  \<open>null\<close>); a \<open>dict\<close> is an association list whose first entry for a key is the
  entry of that key.
\<close>

datatype pyfloat = Finite int int | PosInf | NegInf | NaN

datatype pyval =
    PNone
  | PBool bool
  | PInt int
  | PFloat pyfloat
  | PStr string
  | PList "pyval list"
  | PDict "(string \<times> pyval) list"

text \<open>\<open>type(v).__name__\<close>, as it appears in the interpreter's error messages.\<close>

fun type_name :: "pyval \<Rightarrow> string" where
  "type_name PNone = ''NoneType''"
| "type_name (PBool _) = ''bool''"
| "type_name (PInt _) = ''int''"
| "type_name (PFloat _) = ''float''"
| "type_name (PStr _) = ''str''"
| "type_name (PList _) = ''list''"
| "type_name (PDict _) = ''dict''"

text \<open>Truth value testing, as \<open>if v:\<close> and \<open>not v\<close> do it.\<close>

fun truthy :: "pyval \<Rightarrow> bool" where
  "truthy PNone = False"
| "truthy (PBool b) = b"
| "truthy (PInt i) = (i \<noteq> 0)"
| "truthy (PFloat (Finite m e)) = (m \<noteq> 0)"
| "truthy (PFloat _) = True"
| "truthy (PStr s) = (s \<noteq> [])"
| "truthy (PList xs) = (xs \<noteq> [])"
| "truthy (PDict kv) = (kv \<noteq> [])"

section \<open>Exceptions\<close>

text \<open>
  The first four constructors are subclasses of \<open>Exception\<close>; \<open>OtherException\<close> carries
  the class name and the message of any other subclass of \<open>Exception\<close> (a transport
  error, a JSON decoding error). The last three derive from \<open>BaseException\<close> only, so
  an \<open>except Exception\<close> clause lets them through.
\<close>

datatype exn =
    AttributeError string
  | TypeError string
  | WebhookVerificationError string
  | OtherException string string
  | KeyboardInterrupt
  | SystemExit int
  | CancelledError

fun is_Exception :: "exn \<Rightarrow> bool" where
  "is_Exception KeyboardInterrupt = False"
| "is_Exception (SystemExit _) = False"
| "is_Exception CancelledError = False"
| "is_Exception _ = True"

section \<open>Formatted text, log records and the trace of effects\<close>

text \<open>
  An f-string is kept as its pieces: the literal parts and the values interpolated
  between them. \<open>str()\<close> of a value belongs to the interpreter, not to this program.
\<close>

datatype piece = Lit string | Fmt pyval | FmtExn exn

type_synonym fstring = "piece list"

datatype level = INFO | ERROR

text \<open>
  What the program does to the outside, in the order it does it: a log record, the
  entry into the \<open>deploy\<close> action, the call of the signing library's \<open>verify\<close>, a GET
  request (URL and headers), a sleep.
\<close>

datatype event =
    Log level fstring
  | Deploy
  | Verify string "(string \<times> string) list" string
  | Get fstring "(string \<times> fstring) list"
  | Sleep int

type_synonym trace = "event list"

definition deploy_calls :: "trace \<Rightarrow> nat" where
  "deploy_calls tr = length (filter (\<lambda>e. e = Deploy) tr)"

section \<open>The condition evaluator\<close>

text \<open>\<open>d.get(key, default)\<close> on a dict \<open>d\<close>.\<close>

definition dict_get :: "(string \<times> pyval) list \<Rightarrow> string \<Rightarrow> pyval \<Rightarrow> pyval" where
  "dict_get kv k d = (case map_of kv k of None \<Rightarrow> d | Some v \<Rightarrow> v)"

text \<open>
  \<open>obj.get(key, default)\<close> on any value: only a \<open>dict\<close> has the method, every other
  value raises \<open>AttributeError\<close>.
\<close>

definition no_attribute_get :: "pyval \<Rightarrow> exn" where
  "no_attribute_get obj =
     AttributeError ([CHR 39] @ type_name obj @ [CHR 39] @ '' object has no attribute ''
                     @ [CHR 39] @ ''get'' @ [CHR 39])"

definition method_get :: "pyval \<Rightarrow> string \<Rightarrow> pyval \<Rightarrow> exn + pyval" where
  "method_get obj k d =
     (case obj of
        PDict kv \<Rightarrow> Inr (dict_get kv k d)
      | _ \<Rightarrow> Inl (no_attribute_get obj))"

text \<open>\<open>deploy()\<close>: the placeholder action; it logs one line.\<close>

definition deploy :: "trace \<Rightarrow> trace" where
  "deploy tr = tr @ [Deploy, Log INFO [Lit ''Deploy function called (empty implementation)'']]"

text \<open>
  \<open>process_webhook_payload(payload)\<close>. Every \<open>payload.get("ref")\<close> of the body reads the
  same value, or raises the same \<open>AttributeError\<close>; the first one is evaluated before
  anything is logged.
\<close>

definition process_webhook_payload :: "pyval \<Rightarrow> trace \<Rightarrow> (exn + unit) \<times> trace" where
  "process_webhook_payload payload tr =
     (case method_get payload ''ref'' PNone of
        Inl e \<Rightarrow> (Inl e, tr)
      | Inr r \<Rightarrow>
          if r = PStr ''refs/heads/master'' \<or> r = PStr ''refs/heads/main''
          then (Inr (),
                deploy (tr @ [Log INFO
                  [Lit ''Push to master/main branch detected, triggering deploy'']]))
          else (Inr (), tr @ [Log INFO [Lit ''Ignoring push to '', Fmt r]]))"

section \<open>The verifier\<close>

text \<open>
  \<open>verify_webhook(payload, headers, webhook_secret)\<close>. The signing library is a
  parameter: \<open>Webhook\<close> is its constructor \<open>Webhook(webhook_secret)\<close>, which returns the
  verifier or raises, and \<open>wh_verify\<close> is the verifier's method
  \<open>verify(payload, headers)\<close>, which returns the decoded payload or raises. The
  constructor runs before the \<open>try\<close> block: what it raises is not logged, and \<open>verify\<close> is
  not called then. Inside the \<open>try\<close> block only a \<open>WebhookVerificationError\<close> is logged;
  it is raised again, and anything else passes through.
\<close>

definition verify_webhook ::
  "(string \<Rightarrow> exn + 'wh) \<Rightarrow> ('wh \<Rightarrow> string \<Rightarrow> (string \<times> string) list \<Rightarrow> exn + pyval) \<Rightarrow>
   string \<Rightarrow> (string \<times> string) list \<Rightarrow> string \<Rightarrow> trace \<Rightarrow> (exn + pyval) \<times> trace" where
  "verify_webhook Webhook wh_verify payload headers webhook_secret tr =
     (case Webhook webhook_secret of
        Inl e \<Rightarrow> (Inl e, tr)
      | Inr wh \<Rightarrow>
          (let tr1 = tr @ [Verify payload headers webhook_secret] in
           case wh_verify wh payload headers of
             Inr decoded \<Rightarrow> (Inr decoded, tr1)
           | Inl (WebhookVerificationError m) \<Rightarrow>
               (Inl (WebhookVerificationError m),
                tr1 @ [Log ERROR [Lit ''Webhook verification failed: '',
                                  FmtExn (WebhookVerificationError m)]])
           | Inl e \<Rightarrow> (Inl e, tr1)))"

section \<open>The batch fetcher\<close>

text \<open>
  What \<open>session.get(url, headers=headers)\<close> yields: the request raises, or a response
  arrives with a status and a body on which \<open>response.json()\<close> raises or returns a value.
\<close>

datatype response = Response (status: int) (json: "exn + pyval")

type_synonym session = "fstring \<Rightarrow> (string \<times> fstring) list \<Rightarrow> exn + response"

text \<open>The local variables \<open>headers\<close> and \<open>url\<close> of \<open>poll_messages\<close>.\<close>

definition poll_headers :: "string \<Rightarrow> (string \<times> fstring) list" where
  "poll_headers api_key =
     [(''Authorization'', [Lit ''Bearer '', Fmt (PStr api_key)]),
      (''Content-Type'', [Lit ''application/json'']),
      (''Accept'', [Lit ''application/json''])]"

definition poll_url :: "string \<Rightarrow> pyval \<Rightarrow> fstring" where
  "poll_url endpoint_url iterator =
     (if truthy iterator
      then [Fmt (PStr endpoint_url), Lit ''?iterator='', Fmt iterator]
      else [Lit endpoint_url])"

text \<open>The clause \<open>except Exception as e\<close> of \<open>poll_messages\<close>.\<close>

definition poll_except :: "exn \<Rightarrow> trace \<Rightarrow> (exn + pyval \<times> pyval \<times> pyval) \<times> trace" where
  "poll_except e tr =
     (if is_Exception e
      then (Inr (PList [], PStr [], PBool True),
            tr @ [Log ERROR [Lit ''Error polling messages: '', FmtExn e]])
      else (Inl e, tr))"

text \<open>\<open>poll_messages(session, endpoint_url, api_key, logger, iterator)\<close>.\<close>

definition poll_messages ::
  "session \<Rightarrow> string \<Rightarrow> string \<Rightarrow> pyval \<Rightarrow> trace \<Rightarrow> (exn + pyval \<times> pyval \<times> pyval) \<times> trace" where
  "poll_messages session endpoint_url api_key iterator tr =
     (let headers = poll_headers api_key;
          url = poll_url endpoint_url iterator;
          tr1 = tr @ [Get url headers]
      in case session url headers of
           Inl e \<Rightarrow> poll_except e tr1
         | Inr resp \<Rightarrow>
             if status resp \<noteq> 200
             then (Inr (PList [], PStr [], PBool True),
                   tr1 @ [Log ERROR [Lit ''Failed to poll messages: '',
                                     Fmt (PInt (status resp))]])
             else (case json resp of
                     Inl e \<Rightarrow> poll_except e tr1
                   | Inr data \<Rightarrow>
                       (case method_get data ''data'' (PList []) of
                          Inl e \<Rightarrow> poll_except e tr1
                        | Inr messages \<Rightarrow>
                       (case method_get data ''iterator'' (PStr []) of
                          Inl e \<Rightarrow> poll_except e tr1
                        | Inr next_iterator \<Rightarrow>
                       (case method_get data ''done'' (PBool True) of
                          Inl e \<Rightarrow> poll_except e tr1
                        | Inr done \<Rightarrow> (Inr (messages, next_iterator, done), tr1))))))"

section \<open>The message processor\<close>

text \<open>
  \<open>for msg in messages\<close>: a list yields its elements, a dict its keys, a string its
  characters; nothing else can be iterated.
\<close>

fun iterate :: "pyval \<Rightarrow> exn + pyval list" where
  "iterate (PList xs) = Inr xs"
| "iterate (PDict kv) = Inr (map (\<lambda>(k, v). PStr k) kv)"
| "iterate (PStr s) = Inr (map (\<lambda>c. PStr [c]) s)"
| "iterate v = Inl (TypeError ([CHR 39] @ type_name v @ [CHR 39] @ '' object is not iterable''))"

text \<open>The \<open>try\<close> block of the loop body of \<open>process_messages\<close>.\<close>

definition process_message_try :: "pyval \<Rightarrow> trace \<Rightarrow> (exn + unit) \<times> trace" where
  "process_message_try msg tr =
     (case method_get msg ''payload'' (PDict []) of
        Inl e \<Rightarrow> (Inl e, tr)
      | Inr payload \<Rightarrow>
          (case method_get msg ''id'' PNone of
             Inl e \<Rightarrow> (Inl e, tr)
           | Inr i \<Rightarrow>
               process_webhook_payload payload
                 (tr @ [Log INFO [Lit ''Processing message: '', Fmt i]])))"

text \<open>
  The loop body: the \<open>try\<close> block and its clause \<open>except Exception as e\<close>, whose log line
  calls \<open>msg.get('id')\<close> again, outside any \<open>try\<close>.
\<close>

definition process_message :: "pyval \<Rightarrow> trace \<Rightarrow> (exn + unit) \<times> trace" where
  "process_message msg tr =
     (case process_message_try msg tr of
        (Inr u, tr1) \<Rightarrow> (Inr (), tr1)
      | (Inl e, tr1) \<Rightarrow>
          if is_Exception e
          then (case method_get msg ''id'' PNone of
                  Inl e2 \<Rightarrow> (Inl e2, tr1)
                | Inr i \<Rightarrow>
                    (Inr (), tr1 @ [Log ERROR [Lit ''Error processing message '', Fmt i,
                                               Lit '': '', FmtExn e]]))
          else (Inl e, tr1))"

text \<open>The \<open>for\<close> loop over the elements: an exception that leaves the body ends it.\<close>

fun process_each :: "pyval list \<Rightarrow> trace \<Rightarrow> (exn + unit) \<times> trace" where
  "process_each [] tr = (Inr (), tr)"
| "process_each (msg # msgs) tr =
     (case process_message msg tr of
        (Inl e, tr1) \<Rightarrow> (Inl e, tr1)
      | (Inr u, tr1) \<Rightarrow> process_each msgs tr1)"

text \<open>\<open>process_messages(messages, logger)\<close>.\<close>

definition process_messages :: "pyval \<Rightarrow> trace \<Rightarrow> (exn + unit) \<times> trace" where
  "process_messages messages tr =
     (case iterate messages of
        Inl e \<Rightarrow> (Inl e, tr)
      | Inr msgs \<Rightarrow> process_each msgs tr)"

section \<open>The poll loop\<close>

text \<open>
  One pass through the body of \<open>while True\<close> in \<open>run_poller\<close>, from the cursor
  \<open>iterator\<close>: fetch, dispatch, advance, wait. It returns the cursor of the next pass.
\<close>

definition poll_cycle ::
  "session \<Rightarrow> string \<Rightarrow> string \<Rightarrow> int \<Rightarrow> pyval \<Rightarrow> trace \<Rightarrow> (exn + pyval) \<times> trace" where
  "poll_cycle session endpoint_url api_key poll_interval iterator tr =
     (case poll_messages session endpoint_url api_key iterator tr of
        (Inl e, tr1) \<Rightarrow> (Inl e, tr1)
      | (Inr (messages, next_iterator, done), tr1) \<Rightarrow>
          (case (if truthy messages then process_messages messages tr1 else (Inr (), tr1)) of
             (Inl e, tr2) \<Rightarrow> (Inl e, tr2)
           | (Inr u, tr2) \<Rightarrow>
               (Inr (if \<not> truthy done \<and> truthy next_iterator then next_iterator else PNone),
                tr2 @ [Sleep poll_interval])))"

text \<open>
  The loop never returns; it can only be left by an exception. The model runs it against
  the behaviour of the endpoint at the successive fetches, one \<open>session\<close> per pass, and
  stops where that list ends: \<open>Inr iterator\<close> is the loop still running, about to fetch
  with the cursor \<open>iterator\<close>; \<open>Inl e\<close> is the exception that left it.
\<close>

fun poll_loop ::
  "session list \<Rightarrow> string \<Rightarrow> string \<Rightarrow> int \<Rightarrow> pyval \<Rightarrow> trace \<Rightarrow> (exn + pyval) \<times> trace" where
  "poll_loop [] endpoint_url api_key poll_interval iterator tr = (Inr iterator, tr)"
| "poll_loop (session # sessions) endpoint_url api_key poll_interval iterator tr =
     (case poll_cycle session endpoint_url api_key poll_interval iterator tr of
        (Inl e, tr1) \<Rightarrow> (Inl e, tr1)
      | (Inr iterator1, tr1) \<Rightarrow>
          poll_loop sessions endpoint_url api_key poll_interval iterator1 tr1)"

text \<open>\<open>run_poller(endpoint_url, api_key, logger, poll_interval)\<close>: the loop from no cursor.\<close>

definition run_poller ::
  "session list \<Rightarrow> string \<Rightarrow> string \<Rightarrow> int \<Rightarrow> trace \<Rightarrow> (exn + pyval) \<times> trace" where
  "run_poller sessions endpoint_url api_key poll_interval tr =
     poll_loop sessions endpoint_url api_key poll_interval PNone tr"

section \<open>The entry point\<close>

text \<open>\<open>handle_shutdown(signum, frame)\<close>: one log line, then \<open>sys.exit(0)\<close>.\<close>

definition handle_shutdown :: "int \<Rightarrow> trace \<Rightarrow> (exn + unit) \<times> trace" where
  "handle_shutdown signum tr =
     (Inl (SystemExit 0),
      tr @ [Log INFO [Lit ''Received signal '', Fmt (PInt signum), Lit '', shutting down...'']])"

text \<open>\<open>os.getenv(name)\<close> as a Python value: \<open>None\<close> when the variable is not set.\<close>

definition getenv :: "(string \<Rightarrow> string option) \<Rightarrow> string \<Rightarrow> pyval" where
  "getenv env name = (case env name of None \<Rightarrow> PNone | Some s \<Rightarrow> PStr s)"

text \<open>
  The exit status of the interpreter when an exception leaves \<open>main\<close>: the code of a
  \<open>SystemExit\<close>, and 1 after the traceback of anything else.
\<close>

fun uncaught_status :: "exn \<Rightarrow> int" where
  "uncaught_status (SystemExit n) = n"
| "uncaught_status e = 1"

text \<open>
  \<open>setup_logging()\<close>: it creates the log directory under the home directory, then opens
  the log file for the file handler. Either step can raise; \<open>mkdir\<close> and \<open>open_log\<close> are
  what the file system answers to them. It logs nothing itself.
\<close>

definition setup_logging :: "exn + unit \<Rightarrow> exn + unit \<Rightarrow> trace \<Rightarrow> (exn + unit) \<times> trace" where
  "setup_logging mkdir open_log tr =
     (case mkdir of
        Inl e \<Rightarrow> (Inl e, tr)
      | Inr u \<Rightarrow> (case open_log of Inl e \<Rightarrow> (Inl e, tr) | Inr u \<Rightarrow> (Inr (), tr)))"

text \<open>
  \<open>main()\<close>, run as the script: the result is the exit status of the process, or \<open>None\<close>
  while the poll loop is still running, and the trace. \<open>setup_logging()\<close> is the first
  statement and stands outside any \<open>try\<close>: what it raises leaves \<open>main\<close>. The installation
  of the signal handlers leaves no event. \<open>run_poller\<close> is called with its default
  interval of 30 seconds. The last case of the inner \<open>case\<close> cannot occur: a truthy result
  of \<open>os.getenv\<close> is a string.
\<close>

definition main ::
  "exn + unit \<Rightarrow> exn + unit \<Rightarrow> (string \<Rightarrow> string option) \<Rightarrow> session list \<Rightarrow> int option \<times> trace" where
  "main mkdir open_log env sessions =
     (case setup_logging mkdir open_log [] of
        (Inl e, tr0) \<Rightarrow> (Some (uncaught_status e), tr0)
      | (Inr u0, tr0) \<Rightarrow>
     (let endpoint_url = getenv env ''SVIX_ENDPOINT_URL'';
          api_key = getenv env ''SVIX_API_KEY''
      in if \<not> truthy endpoint_url \<or> \<not> truthy api_key
         then (Some 0,
               tr0 @ [Log ERROR
                 [Lit ''SVIX_ENDPOINT_URL and SVIX_API_KEY must be set in environment'']])
         else (case (endpoint_url, api_key) of
                 (PStr u, PStr k) \<Rightarrow>
                   (case run_poller sessions u k 30
                           (tr0 @ [Log INFO [Lit ''Starting Svix poller for endpoint: '',
                                             Fmt (PStr u)]]) of
                      (Inr iterator, tr) \<Rightarrow> (None, tr)
                    | (Inl KeyboardInterrupt, tr) \<Rightarrow>
                        (Some 0, tr @ [Log INFO [Lit ''Shutting down...'']])
                    | (Inl e, tr) \<Rightarrow>
                        if is_Exception e
                        then (Some 1, tr @ [Log ERROR [Lit ''Fatal error: '', FmtExn e]])
                        else (Some (uncaught_status e), tr))
               | _ \<Rightarrow> (Some 1, tr0))))"

section \<open>Observations on a trace\<close>

definition verify_calls :: "trace \<Rightarrow> nat" where
  "verify_calls tr = length (filter (\<lambda>e. case e of Verify p h s \<Rightarrow> True | _ \<Rightarrow> False) tr)"

text \<open>The GET requests of a trace, in order: URL and headers of each.\<close>

fun fetches :: "trace \<Rightarrow> (fstring \<times> (string \<times> fstring) list) list" where
  "fetches [] = []"
| "fetches (Get url headers # tr) = (url, headers) # fetches tr"
| "fetches (e # tr) = fetches tr"

text \<open>
  An envelope that ought to trigger the action: a dict whose \<open>payload\<close> is a dict whose
  \<open>ref\<close> is one of the two branch refs.
\<close>

definition envelope_triggers :: "pyval \<Rightarrow> bool" where
  "envelope_triggers msg =
     (case msg of
        PDict kv \<Rightarrow>
          (case dict_get kv ''payload'' (PDict []) of
             PDict p \<Rightarrow> map_of p ''ref'' = Some (PStr ''refs/heads/master'')
                        \<or> map_of p ''ref'' = Some (PStr ''refs/heads/main'')
           | _ \<Rightarrow> False)
      | _ \<Rightarrow> False)"

section \<open>Counting on traces\<close>

lemma deploy_calls_append [simp]:
  "deploy_calls (xs @ ys) = deploy_calls xs + deploy_calls ys"
  by (simp add: deploy_calls_def)

lemma deploy_calls_simps [simp]:
  "deploy_calls [] = 0"
  "deploy_calls (Deploy # tr) = Suc (deploy_calls tr)"
  "deploy_calls (Log l t # tr) = deploy_calls tr"
  "deploy_calls (Verify p h s # tr) = deploy_calls tr"
  "deploy_calls (Get u hs # tr) = deploy_calls tr"
  "deploy_calls (Sleep n # tr) = deploy_calls tr"
  by (simp_all add: deploy_calls_def)

lemma verify_calls_append [simp]:
  "verify_calls (xs @ ys) = verify_calls xs + verify_calls ys"
  by (simp add: verify_calls_def)

lemma verify_calls_simps [simp]:
  "verify_calls [] = 0"
  "verify_calls (Verify p h s # tr) = Suc (verify_calls tr)"
  "verify_calls (Deploy # tr) = verify_calls tr"
  "verify_calls (Log l t # tr) = verify_calls tr"
  "verify_calls (Get u hs # tr) = verify_calls tr"
  "verify_calls (Sleep n # tr) = verify_calls tr"
  by (simp_all add: verify_calls_def)

lemma fetches_append [simp]: "fetches (xs @ ys) = fetches xs @ fetches ys"
  by (induction xs rule: fetches.induct) simp_all

section \<open>Every operation only appends to the trace\<close>

lemma process_webhook_payload_shift:
  "process_webhook_payload payload tr =
     (fst (process_webhook_payload payload []), tr @ snd (process_webhook_payload payload []))"
  by (simp add: process_webhook_payload_def deploy_def split: sum.splits)

lemma process_message_try_shift:
  "process_message_try msg tr =
     (fst (process_message_try msg []), tr @ snd (process_message_try msg []))"
proof -
  have "process_webhook_payload p (tr @ ev) =
          (fst (process_webhook_payload p ev), tr @ snd (process_webhook_payload p ev))" for p ev
    using process_webhook_payload_shift [of p "tr @ ev"] process_webhook_payload_shift [of p ev]
    by simp
  then show ?thesis
    by (simp add: process_message_try_def split: sum.splits)
qed

lemma process_message_shift:
  "process_message msg tr = (fst (process_message msg []), tr @ snd (process_message msg []))"
proof -
  obtain r ev where e: "process_message_try msg [] = (r, ev)"
    by (cases "process_message_try msg []")
  then have "process_message_try msg tr = (r, tr @ ev)"
    using process_message_try_shift [of msg tr] by simp
  with e show ?thesis
    by (simp add: process_message_def split: sum.splits)
qed

lemma process_each_shift:
  "process_each msgs tr = (fst (process_each msgs []), tr @ snd (process_each msgs []))"
proof (induction msgs arbitrary: tr)
  case Nil
  show ?case by simp
next
  case (Cons msg msgs)
  obtain r ev where e: "process_message msg [] = (r, ev)"
    by (cases "process_message msg []")
  then have t: "process_message msg tr = (r, tr @ ev)"
    using process_message_shift [of msg tr] by simp
  show ?case
  proof (cases r)
    case (Inl x)
    with e t show ?thesis by simp
  next
    case (Inr u)
    with e t Cons.IH [of "tr @ ev"] Cons.IH [of ev] show ?thesis by simp
  qed
qed

lemma process_messages_shift:
  "process_messages messages tr =
     (fst (process_messages messages []), tr @ snd (process_messages messages []))"
  using process_each_shift [of _ tr]
  by (simp add: process_messages_def split: sum.splits)

lemma poll_messages_shift:
  "poll_messages session endpoint_url api_key iterator tr =
     (fst (poll_messages session endpoint_url api_key iterator []),
      tr @ snd (poll_messages session endpoint_url api_key iterator []))"
  by (simp add: poll_messages_def poll_except_def Let_def split: sum.splits)

lemma poll_messages_first_event:
  "\<exists>ev. snd (poll_messages session endpoint_url api_key iterator tr) =
          tr @ Get (poll_url endpoint_url iterator) (poll_headers api_key) # ev"
  by (simp add: poll_messages_def poll_except_def Let_def split: sum.splits)

lemma poll_cycle_shift:
  "poll_cycle session endpoint_url api_key poll_interval iterator tr =
     (fst (poll_cycle session endpoint_url api_key poll_interval iterator []),
      tr @ snd (poll_cycle session endpoint_url api_key poll_interval iterator []))"
proof -
  obtain r ev where e: "poll_messages session endpoint_url api_key iterator [] = (r, ev)"
    by (cases "poll_messages session endpoint_url api_key iterator []")
  then have t: "poll_messages session endpoint_url api_key iterator tr = (r, tr @ ev)"
    using poll_messages_shift [of session endpoint_url api_key iterator tr] by simp
  show ?thesis
  proof (cases r)
    case (Inl x)
    with e t show ?thesis by (simp add: poll_cycle_def)
  next
    case (Inr res)
    obtain messages next_iterator fin where res: "res = (messages, next_iterator, fin)"
      by (cases res)
    obtain r2 ev2 where e2: "process_messages messages [] = (r2, ev2)"
      by (cases "process_messages messages []")
    have s1: "process_messages messages (tr @ ev) = (r2, tr @ ev @ ev2)"
      using process_messages_shift [of messages "tr @ ev"] e2 by simp
    have s2: "process_messages messages ev = (r2, ev @ ev2)"
      using process_messages_shift [of messages ev] e2 by simp
    from Inr res e t s1 s2 show ?thesis
      by (simp add: poll_cycle_def split: sum.splits)
  qed
qed

lemma poll_loop_shift:
  "poll_loop sessions endpoint_url api_key poll_interval iterator tr =
     (fst (poll_loop sessions endpoint_url api_key poll_interval iterator []),
      tr @ snd (poll_loop sessions endpoint_url api_key poll_interval iterator []))"
proof (induction sessions arbitrary: iterator tr)
  case Nil
  show ?case by simp
next
  case (Cons session sessions)
  obtain r ev where e: "poll_cycle session endpoint_url api_key poll_interval iterator [] = (r, ev)"
    by (cases "poll_cycle session endpoint_url api_key poll_interval iterator []")
  then have t: "poll_cycle session endpoint_url api_key poll_interval iterator tr = (r, tr @ ev)"
    using poll_cycle_shift [of session endpoint_url api_key poll_interval iterator tr] by simp
  show ?case
  proof (cases r)
    case (Inl x)
    with e t show ?thesis by simp
  next
    case (Inr it1)
    with e t Cons.IH [of it1 "tr @ ev"] Cons.IH [of it1 ev] show ?thesis by simp
  qed
qed

lemma poll_cycle_first_event:
  "\<exists>ev. snd (poll_cycle session endpoint_url api_key poll_interval iterator tr) =
          tr @ Get (poll_url endpoint_url iterator) (poll_headers api_key) # ev"
proof -
  obtain r tr1 where e: "poll_messages session endpoint_url api_key iterator tr = (r, tr1)"
    by (cases "poll_messages session endpoint_url api_key iterator tr")
  obtain ev where ev: "tr1 = tr @ Get (poll_url endpoint_url iterator) (poll_headers api_key) # ev"
    using poll_messages_first_event [of session endpoint_url api_key iterator tr] e by auto
  show ?thesis
  proof (cases r)
    case (Inl x)
    with e ev show ?thesis by (simp add: poll_cycle_def)
  next
    case (Inr res)
    obtain messages next_iterator fin where res: "res = (messages, next_iterator, fin)"
      by (cases res)
    obtain r2 ev2 where e2: "process_messages messages [] = (r2, ev2)"
      by (cases "process_messages messages []")
    have s1: "process_messages messages tr1 = (r2, tr1 @ ev2)"
      using process_messages_shift [of messages tr1] e2 by simp
    from Inr res e ev s1 show ?thesis
      by (simp add: poll_cycle_def split: sum.splits)
  qed
qed

lemma poll_loop_first_event:
  "\<exists>ev. snd (poll_loop (session # sessions) endpoint_url api_key poll_interval iterator tr) =
          tr @ Get (poll_url endpoint_url iterator) (poll_headers api_key) # ev"
proof -
  obtain r tr1 where e: "poll_cycle session endpoint_url api_key poll_interval iterator tr = (r, tr1)"
    by (cases "poll_cycle session endpoint_url api_key poll_interval iterator tr")
  obtain ev where ev: "tr1 = tr @ Get (poll_url endpoint_url iterator) (poll_headers api_key) # ev"
    using poll_cycle_first_event [of session endpoint_url api_key poll_interval iterator tr] e
    by auto
  show ?thesis
  proof (cases r)
    case (Inl x)
    with e ev show ?thesis by simp
  next
    case (Inr it1)
    obtain ev2 where "snd (poll_loop sessions endpoint_url api_key poll_interval it1 tr1) = tr1 @ ev2"
      using poll_loop_shift [of sessions endpoint_url api_key poll_interval it1 tr1]
      by (metis snd_conv)
    with Inr e ev show ?thesis by simp
  qed
qed

section \<open>The condition evaluator decides on \<open>ref\<close>\<close>

lemma process_webhook_payload_dict:
  "fst (process_webhook_payload (PDict p) tr) = Inr ()
   \<and> deploy_calls (snd (process_webhook_payload (PDict p) tr)) =
       (if map_of p ''ref'' = Some (PStr ''refs/heads/master'')
           \<or> map_of p ''ref'' = Some (PStr ''refs/heads/main'')
        then Suc (deploy_calls tr) else deploy_calls tr)"
  by (auto simp: process_webhook_payload_def method_get_def dict_get_def deploy_def
           split: option.splits)

text \<open>
  C1. For every payload that is a dict, \<open>process_webhook_payload\<close> returns normally, and
  it enters \<open>deploy\<close> (once) if and only if the payload's \<open>ref\<close> is
  \<open>refs/heads/master\<close> or \<open>refs/heads/main\<close>; with any other \<open>ref\<close>, or with none,
  \<open>deploy\<close> is not entered.
\<close>

theorem process_webhook_payload_deploys_iff_ref:
  "fst (process_webhook_payload (PDict kv) tr) = Inr ()
   \<and> deploy_calls (snd (process_webhook_payload (PDict kv) tr)) =
       (if map_of kv ''ref'' = Some (PStr ''refs/heads/master'')
           \<or> map_of kv ''ref'' = Some (PStr ''refs/heads/main'')
        then Suc (deploy_calls tr) else deploy_calls tr)"
  by (rule process_webhook_payload_dict)

section \<open>The cursor of the next fetch\<close>

lemma poll_cycle_cursor:
  assumes "poll_messages session endpoint_url api_key iterator tr =
             (Inr (messages, next_iterator, done), tr1)"
      and "poll_cycle session endpoint_url api_key poll_interval iterator tr = (Inr iterator1, tr2)"
  shows "iterator1 = (if \<not> truthy done \<and> truthy next_iterator then next_iterator else PNone)"
  using assms by (auto simp: poll_cycle_def split: sum.splits prod.splits if_splits)

text \<open>
  C2. A pass of the poll loop whose fetch returned \<open>(messages, next_iterator, done)\<close>, with
  \<open>next_iterator\<close> a string and \<open>done\<close> a boolean, and which was not left by an exception,
  hands on the cursor \<open>next_iterator\<close> if \<open>done\<close> is false and \<open>next_iterator\<close> is not
  empty, and no cursor otherwise. The loop goes on with that cursor, and the event that
  follows the pass is the GET of the next fetch: its URL carries \<open>next_iterator\<close> itself in
  the first case and is the bare endpoint URL in the second.
\<close>

theorem run_poller_cursor_advance:
  assumes fetch: "poll_messages session endpoint_url api_key iterator tr =
             (Inr (messages, PStr next_iterator, PBool done), tr1)"
      and cycle: "poll_cycle session endpoint_url api_key poll_interval iterator tr =
             (Inr iterator1, tr2)"
  shows "iterator1 = (if \<not> done \<and> next_iterator \<noteq> [] then PStr next_iterator else PNone)
       \<and> poll_loop (session # session1 # sessions) endpoint_url api_key poll_interval iterator tr =
           poll_loop (session1 # sessions) endpoint_url api_key poll_interval iterator1 tr2
       \<and> take (Suc (length tr2))
           (snd (poll_loop (session # session1 # sessions) endpoint_url api_key poll_interval
                   iterator tr)) =
           tr2 @ [Get (if \<not> done \<and> next_iterator \<noteq> []
                       then [Fmt (PStr endpoint_url), Lit ''?iterator='', Fmt (PStr next_iterator)]
                       else [Lit endpoint_url])
                      (poll_headers api_key)]"
proof -
  have it: "iterator1 = (if \<not> done \<and> next_iterator \<noteq> [] then PStr next_iterator else PNone)"
    using poll_cycle_cursor [OF fetch cycle] by simp
  have loop: "poll_loop (session # session1 # sessions) endpoint_url api_key poll_interval iterator tr =
           poll_loop (session1 # sessions) endpoint_url api_key poll_interval iterator1 tr2"
    using cycle by simp
  obtain ev where "snd (poll_loop (session1 # sessions) endpoint_url api_key poll_interval iterator1 tr2)
      = tr2 @ Get (poll_url endpoint_url iterator1) (poll_headers api_key) # ev"
    using poll_loop_first_event by blast
  then have "take (Suc (length tr2))
           (snd (poll_loop (session # session1 # sessions) endpoint_url api_key poll_interval
                   iterator tr)) = tr2 @ [Get (poll_url endpoint_url iterator1) (poll_headers api_key)]"
    using loop by simp
  moreover have "poll_url endpoint_url iterator1 = (if \<not> done \<and> next_iterator \<noteq> []
                       then [Fmt (PStr endpoint_url), Lit ''?iterator='', Fmt (PStr next_iterator)]
                       else [Lit endpoint_url])"
    using it by (simp add: poll_url_def)
  ultimately show ?thesis using it loop by simp
qed

theorem run_poller_cursor_advance_witness:
  "take 7 (snd (poll_loop
      [\<lambda>url headers. Inr (Response 200 (Inr (PDict
          [(''data'', PList [PDict [(''id'', PStr ''m1''),
                                   (''payload'', PDict [(''ref'', PStr ''refs/heads/main'')])]]),
           (''iterator'', PStr ''c1''), (''done'', PBool False)]))),
       \<lambda>url headers. Inr (Response 500 (Inr PNone))]
      ''https://e/poll'' ''key'' 30 PNone [])) =
   [Get [Lit ''https://e/poll''] (poll_headers ''key''),
    Log INFO [Lit ''Processing message: '', Fmt (PStr ''m1'')],
    Log INFO [Lit ''Push to master/main branch detected, triggering deploy''],
    Deploy,
    Log INFO [Lit ''Deploy function called (empty implementation)''],
    Sleep 30,
    Get [Fmt (PStr ''https://e/poll''), Lit ''?iterator='', Fmt (PStr ''c1'')] (poll_headers ''key'')]"
proof -
  let ?s = "(\<lambda>url headers. Inr (Response 200 (Inr (PDict
          [(''data'', PList [PDict [(''id'', PStr ''m1''),
                                   (''payload'', PDict [(''ref'', PStr ''refs/heads/main'')])]]),
           (''iterator'', PStr ''c1''), (''done'', PBool False)])))) :: session"
  let ?msgs = "PList [PDict [(''id'', PStr ''m1''),
                             (''payload'', PDict [(''ref'', PStr ''refs/heads/main'')])]]"
  let ?tr2 = "[Get [Lit ''https://e/poll''] (poll_headers ''key''),
    Log INFO [Lit ''Processing message: '', Fmt (PStr ''m1'')],
    Log INFO [Lit ''Push to master/main branch detected, triggering deploy''],
    Deploy,
    Log INFO [Lit ''Deploy function called (empty implementation)''],
    Sleep 30]"
  have fetch: "poll_messages ?s ''https://e/poll'' ''key'' PNone [] =
      (Inr (?msgs, PStr ''c1'', PBool False), [Get [Lit ''https://e/poll''] (poll_headers ''key'')])"
    by (simp add: poll_messages_def method_get_def dict_get_def poll_url_def)
  have cycle: "poll_cycle ?s ''https://e/poll'' ''key'' 30 PNone [] = (Inr (PStr ''c1''), ?tr2)"
    by (simp add: poll_cycle_def fetch process_messages_def process_message_def
          process_message_try_def process_webhook_payload_def method_get_def dict_get_def
          deploy_def)
  show ?thesis
    using conjunct2 [OF conjunct2
            [OF run_poller_cursor_advance [OF fetch cycle, of "\<lambda>url headers. Inr (Response 500 (Inr PNone))" "[]"]]]
    by (simp add: eval_nat_numeral del: poll_loop.simps)
qed

section \<open>What a fetch returns\<close>

text \<open>
  C3, as stated, fails: \<open>except Exception\<close> does not catch what derives from
  \<open>BaseException\<close> only. A \<open>CancelledError\<close> raised at the pending request, as when the
  task is cancelled during a fetch, leaves \<open>poll_messages\<close>; so do \<open>KeyboardInterrupt\<close> and
  \<open>SystemExit\<close>.
\<close>

theorem poll_messages_cancellation_propagates:
  "poll_messages (\<lambda>url headers. Inl CancelledError) ''https://e/poll'' ''key'' PNone [] =
     (Inl CancelledError, [Get [Lit ''https://e/poll''] (poll_headers ''key'')])"
  by (simp add: poll_messages_def poll_except_def poll_url_def)

text \<open>
  C3, amended. If the request raises an instance of \<open>Exception\<close>, or the status of the
  response is not 200, or \<open>response.json()\<close> raises an instance of \<open>Exception\<close>, or the
  parsed body is not a dict (so that reading its fields raises \<open>AttributeError\<close>), then
  \<open>poll_messages\<close> returns the empty list, the empty cursor and \<open>done = True\<close>; it raises
  nothing, and it logs one error after the request.
\<close>

theorem poll_messages_failure_is_empty:
  assumes "(\<exists>e. session (poll_url endpoint_url iterator) (poll_headers api_key) = Inl e
                \<and> is_Exception e)
     \<or> (\<exists>r. session (poll_url endpoint_url iterator) (poll_headers api_key) = Inr r
            \<and> (status r \<noteq> 200
               \<or> (\<exists>e. json r = Inl e \<and> is_Exception e)
               \<or> (\<exists>v. json r = Inr v \<and> (\<forall>kv. v \<noteq> PDict kv))))"
  shows "fst (poll_messages session endpoint_url api_key iterator tr) =
           Inr (PList [], PStr [], PBool True)
       \<and> (\<exists>m. snd (poll_messages session endpoint_url api_key iterator tr) =
              tr @ [Get (poll_url endpoint_url iterator) (poll_headers api_key), Log ERROR m])"
  using assms
proof (elim disjE exE conjE)
  fix e
  assume "session (poll_url endpoint_url iterator) (poll_headers api_key) = Inl e" "is_Exception e"
  then show ?thesis by (simp add: poll_messages_def poll_except_def)
next
  fix r
  assume "session (poll_url endpoint_url iterator) (poll_headers api_key) = Inr r" "status r \<noteq> 200"
  then show ?thesis by (simp add: poll_messages_def)
next
  fix r e
  assume "session (poll_url endpoint_url iterator) (poll_headers api_key) = Inr r"
    "json r = Inl e" "is_Exception e"
  then show ?thesis by (cases "status r = 200") (simp_all add: poll_messages_def poll_except_def)
next
  fix r v
  assume r: "session (poll_url endpoint_url iterator) (poll_headers api_key) = Inr r"
    "json r = Inr v" and v: "\<forall>kv. v \<noteq> PDict kv"
  from v have "method_get v k d = Inl (no_attribute_get v)" for k d
    by (cases v) (simp_all add: method_get_def)
  moreover have "is_Exception (no_attribute_get v)"
    by (simp add: no_attribute_get_def)
  ultimately show ?thesis using r
    by (cases "status r = 200") (simp_all add: poll_messages_def poll_except_def)
qed

theorem poll_messages_failure_is_empty_witness:
  "fst (poll_messages (\<lambda>url headers. Inr (Response 500 (Inr PNone))) ''https://e/poll'' ''key''
          PNone []) = Inr (PList [], PStr [], PBool True)
   \<and> fst (poll_messages (\<lambda>url headers. Inl (OtherException ''ClientConnectorError'' ''refused''))
          ''https://e/poll'' ''key'' (PStr ''c1'') []) = Inr (PList [], PStr [], PBool True)
   \<and> fst (poll_messages
          (\<lambda>url headers. Inr (Response 200 (Inl (OtherException ''JSONDecodeError'' ''Expecting value''))))
          ''https://e/poll'' ''key'' PNone []) = Inr (PList [], PStr [], PBool True)
   \<and> fst (poll_messages (\<lambda>url headers. Inr (Response 200 (Inr (PList []))))
          ''https://e/poll'' ''key'' PNone []) = Inr (PList [], PStr [], PBool True)"
  using poll_messages_failure_is_empty [of "\<lambda>url headers. Inr (Response 500 (Inr PNone))" "''https://e/poll''" PNone "''key''" "[]"]
        poll_messages_failure_is_empty [of "\<lambda>url headers. Inl (OtherException ''ClientConnectorError'' ''refused'')"
               "''https://e/poll''" "PStr ''c1''" "''key''" "[]"]
        poll_messages_failure_is_empty [of "\<lambda>url headers. Inr (Response 200 (Inl (OtherException ''JSONDecodeError'' ''Expecting value'')))"
               "''https://e/poll''" PNone "''key''" "[]"]
        poll_messages_failure_is_empty [of "\<lambda>url headers. Inr (Response 200 (Inr (PList [])))" "''https://e/poll''" PNone "''key''" "[]"]
  by simp

text \<open>
  C5. If the response has status 200 and its body parses to a dict, \<open>poll_messages\<close>
  returns the body's \<open>data\<close>, \<open>iterator\<close> and \<open>done\<close>, with the empty list, the empty
  string and \<open>True\<close> in the place of a field that is absent; it logs nothing.
\<close>

theorem poll_messages_success_fields:
  assumes "session (poll_url endpoint_url iterator) (poll_headers api_key) =
             Inr (Response 200 (Inr (PDict body)))"
  shows "poll_messages session endpoint_url api_key iterator tr =
     (Inr (case map_of body ''data'' of None \<Rightarrow> PList [] | Some v \<Rightarrow> v,
           case map_of body ''iterator'' of None \<Rightarrow> PStr [] | Some v \<Rightarrow> v,
           case map_of body ''done'' of None \<Rightarrow> PBool True | Some v \<Rightarrow> v),
      tr @ [Get (poll_url endpoint_url iterator) (poll_headers api_key)])"
  using assms by (simp add: poll_messages_def method_get_def dict_get_def)

theorem poll_messages_success_fields_witness:
  "fst (poll_messages
     (\<lambda>url headers. Inr (Response 200 (Inr (PDict
        [(''data'', PList [PDict [(''id'', PStr ''m1'')]]), (''iterator'', PStr ''c1'')]))))
     ''https://e/poll'' ''key'' PNone []) =
   Inr (PList [PDict [(''id'', PStr ''m1'')]], PStr ''c1'', PBool True)
   \<and> fst (poll_messages (\<lambda>url headers. Inr (Response 200 (Inr (PDict [(''done'', PBool False)]))))
     ''https://e/poll'' ''key'' PNone []) = Inr (PList [], PStr [], PBool False)"
  using poll_messages_success_fields [of "\<lambda>url headers. Inr (Response 200 (Inr (PDict
        [(''data'', PList [PDict [(''id'', PStr ''m1'')]]), (''iterator'', PStr ''c1'')])))"
        "''https://e/poll''" PNone "''key''"
        "[(''data'', PList [PDict [(''id'', PStr ''m1'')]]), (''iterator'', PStr ''c1'')]" "[]"]
     poll_messages_success_fields [of "\<lambda>url headers. Inr (Response 200 (Inr (PDict [(''done'', PBool False)])))"
        "''https://e/poll''" PNone "''key''" "[(''done'', PBool False)]" "[]"]
  by simp

text \<open>
  C10. \<open>poll_messages\<close> called with the empty string as iterator does what it does with no
  iterator: in both cases the URL requested is the endpoint URL itself, with no
  \<open>iterator\<close> parameter, and results and effects are the same.
\<close>

theorem poll_messages_empty_iterator_is_none:
  "poll_messages session endpoint_url api_key (PStr []) tr =
     poll_messages session endpoint_url api_key PNone tr
   \<and> poll_url endpoint_url (PStr []) = [Lit endpoint_url]
   \<and> poll_url endpoint_url PNone = [Lit endpoint_url]"
  by (simp add: poll_messages_def poll_url_def)

section \<open>Failures are contained within a message\<close>

lemma process_message_dict:
  "process_message (PDict kv) [] =
     (Inr (),
      Log INFO [Lit ''Processing message: '', Fmt (dict_get kv ''id'' PNone)] #
      (case dict_get kv ''payload'' (PDict []) of
         PDict p \<Rightarrow> snd (process_webhook_payload (PDict p) [])
       | v \<Rightarrow> [Log ERROR [Lit ''Error processing message '', Fmt (dict_get kv ''id'' PNone),
                          Lit '': '', FmtExn (no_attribute_get v)]]))"
  by (simp add: process_message_def process_message_try_def process_webhook_payload_def
        method_get_def deploy_def no_attribute_get_def split: pyval.splits)

lemma process_message_dict_deploys:
  "deploy_calls (snd (process_message (PDict kv) [])) =
     (if envelope_triggers (PDict kv) then 1 else 0)"
proof (cases "dict_get kv ''payload'' (PDict [])")
  case (PDict p)
  then show ?thesis
    using process_webhook_payload_dict [of p "[]"]
    by (simp add: process_message_dict envelope_triggers_def)
qed (simp_all add: process_message_dict envelope_triggers_def)

lemma process_each_dicts:
  assumes "\<forall>msg \<in> set msgs. \<exists>kv. msg = PDict kv"
  shows "process_each msgs tr =
           (Inr (), tr @ concat (map (\<lambda>msg. snd (process_message msg [])) msgs))"
  using assms
proof (induction msgs arbitrary: tr)
  case Nil
  show ?case by simp
next
  case (Cons msg msgs)
  then obtain kv where kv: "msg = PDict kv" by auto
  have "process_message msg tr = (Inr (), tr @ snd (process_message msg []))"
    using process_message_shift [of msg tr] by (simp add: kv process_message_dict)
  with Cons show ?case by simp
qed

lemma deploy_calls_concat:
  assumes "\<forall>msg \<in> set msgs. \<exists>kv. msg = PDict kv"
  shows "deploy_calls (concat (map (\<lambda>msg. snd (process_message msg [])) msgs)) =
           length (filter envelope_triggers msgs)"
  using assms
proof (induction msgs)
  case Nil
  show ?case by simp
next
  case (Cons msg msgs)
  then obtain kv where kv: "msg = PDict kv" by auto
  with Cons show ?case by (simp add: process_message_dict_deploys)
qed

text \<open>
  C4. The \<open>try\<close> block of \<open>process_messages\<close> is there to contain the failure of one
  message, the extraction \<open>msg.get("payload", {})\<close> included; but the \<open>except\<close> clause
  calls \<open>msg.get('id')\<close> again, outside any \<open>try\<close>. An element of the batch that is not a
  dict therefore makes the handler itself raise, and the batch is left at that element:
  here the well-formed envelope after it is never processed and \<open>process_messages\<close>
  raises \<open>AttributeError\<close>, where the specification has the failure logged and the
  envelope evaluated.
\<close>

theorem process_messages_non_dict_aborts:
  "fst (process_messages
          (PList [PStr ''oops'',
                  PDict [(''id'', PStr ''m1''),
                         (''payload'', PDict [(''ref'', PStr ''refs/heads/main'')])]])
          []) = Inl (no_attribute_get (PStr ''oops''))
   \<and> snd (process_messages
          (PList [PStr ''oops'',
                  PDict [(''id'', PStr ''m1''),
                         (''payload'', PDict [(''ref'', PStr ''refs/heads/main'')])]])
          []) = []"
  by (simp add: process_messages_def process_message_def process_message_try_def method_get_def)

text \<open>
  Where the containment does work: for every batch whose elements are all dicts, as the
  annotation \<open>list[dict[str, Any]]\<close> has it, \<open>process_messages\<close> returns normally and processes every
  envelope, in order and each on its own: the trace is the given one followed by what
  each envelope yields alone. An envelope yields the line announcing its id, and then
  either what \<open>process_webhook_payload\<close> yields on its payload, or, when the payload is
  not a dict, the error line carrying the envelope's id and the exception. So \<open>deploy\<close>
  is entered once for each envelope that ought to trigger it, whatever the others hold.
\<close>

lemma process_messages_isolates_failures:
  assumes "\<forall>msg \<in> set msgs. \<exists>kv. msg = PDict kv"
  shows "fst (process_messages (PList msgs) tr) = Inr ()
       \<and> snd (process_messages (PList msgs) tr) =
           tr @ concat (map (\<lambda>msg. snd (process_message msg [])) msgs)
       \<and> deploy_calls (snd (process_messages (PList msgs) tr)) =
           deploy_calls tr + length (filter envelope_triggers msgs)
       \<and> (\<forall>kv. PDict kv \<in> set msgs \<longrightarrow>
            snd (process_message (PDict kv) []) =
              Log INFO [Lit ''Processing message: '', Fmt (dict_get kv ''id'' PNone)] #
              (case dict_get kv ''payload'' (PDict []) of
                 PDict p \<Rightarrow> snd (process_webhook_payload (PDict p) [])
               | v \<Rightarrow> [Log ERROR [Lit ''Error processing message '',
                                  Fmt (dict_get kv ''id'' PNone), Lit '': '',
                                  FmtExn (no_attribute_get v)]]))"
  using process_each_dicts [OF assms, of tr] deploy_calls_concat [OF assms]
  by (simp add: process_messages_def process_message_dict)

lemma process_messages_isolates_failures_example:
  "fst (process_messages
          (PList [PDict [(''id'', PStr ''m1''), (''payload'', PDict [(''ref'', PStr ''refs/heads/main'')])],
                  PDict [(''id'', PStr ''m2''), (''payload'', PStr ''raw'')],
                  PDict [(''id'', PStr ''m3''), (''payload'', PDict [(''ref'', PStr ''refs/heads/master'')])]])
          []) = Inr ()
   \<and> deploy_calls (snd (process_messages
          (PList [PDict [(''id'', PStr ''m1''), (''payload'', PDict [(''ref'', PStr ''refs/heads/main'')])],
                  PDict [(''id'', PStr ''m2''), (''payload'', PStr ''raw'')],
                  PDict [(''id'', PStr ''m3''), (''payload'', PDict [(''ref'', PStr ''refs/heads/master'')])]])
          [])) = 2"
proof -
  let ?msgs = "[PDict [(''id'', PStr ''m1''), (''payload'', PDict [(''ref'', PStr ''refs/heads/main'')])],
                  PDict [(''id'', PStr ''m2''), (''payload'', PStr ''raw'')],
                  PDict [(''id'', PStr ''m3''), (''payload'', PDict [(''ref'', PStr ''refs/heads/master'')])]]"
  have dicts: "\<forall>msg \<in> set ?msgs. \<exists>kv. msg = PDict kv" by simp
  have two: "length (filter envelope_triggers ?msgs) = 2"
    by (simp add: envelope_triggers_def dict_get_def)
  have "fst (process_messages (PList ?msgs) []) = Inr ()"
    using process_messages_isolates_failures [OF dicts, of "[]"] by blast
  moreover have "deploy_calls (snd (process_messages (PList ?msgs) [])) =
      deploy_calls [] + length (filter envelope_triggers ?msgs)"
    using process_messages_isolates_failures [OF dicts, of "[]"] by blast
  ultimately show ?thesis using two by simp
qed

section \<open>The verifier is not on the polling path\<close>

lemma process_webhook_payload_no_verify:
  "verify_calls (snd (process_webhook_payload payload tr)) = verify_calls tr"
  by (simp add: process_webhook_payload_def deploy_def split: sum.splits)

lemma process_message_try_no_verify:
  "verify_calls (snd (process_message_try msg tr)) = verify_calls tr"
  by (simp add: process_message_try_def process_webhook_payload_no_verify split: sum.splits)

lemma process_message_no_verify:
  "verify_calls (snd (process_message msg tr)) = verify_calls tr"
proof -
  obtain r tr1 where e: "process_message_try msg tr = (r, tr1)"
    by (cases "process_message_try msg tr")
  then have "verify_calls tr1 = verify_calls tr"
    using process_message_try_no_verify [of msg tr] by simp
  with e show ?thesis
    by (simp add: process_message_def split: sum.splits)
qed

lemma process_each_no_verify:
  "verify_calls (snd (process_each msgs tr)) = verify_calls tr"
proof (induction msgs arbitrary: tr)
  case Nil
  show ?case by simp
next
  case (Cons msg msgs)
  obtain r tr1 where e: "process_message msg tr = (r, tr1)"
    by (cases "process_message msg tr")
  then have "verify_calls tr1 = verify_calls tr"
    using process_message_no_verify [of msg tr] by simp
  with e Cons.IH [of tr1] show ?case by (cases r) simp_all
qed

lemma process_messages_no_verify:
  "verify_calls (snd (process_messages messages tr)) = verify_calls tr"
  by (simp add: process_messages_def process_each_no_verify split: sum.splits)

lemma poll_messages_no_verify:
  "verify_calls (snd (poll_messages session endpoint_url api_key iterator tr)) = verify_calls tr"
  by (simp add: poll_messages_def poll_except_def Let_def split: sum.splits)

lemma poll_cycle_no_verify:
  "verify_calls (snd (poll_cycle session endpoint_url api_key poll_interval iterator tr)) =
     verify_calls tr"
proof -
  obtain r tr1 where e: "poll_messages session endpoint_url api_key iterator tr = (r, tr1)"
    by (cases "poll_messages session endpoint_url api_key iterator tr")
  then have v: "verify_calls tr1 = verify_calls tr"
    using poll_messages_no_verify [of session endpoint_url api_key iterator tr] by simp
  show ?thesis
  proof (cases r)
    case (Inl x)
    with e v show ?thesis by (simp add: poll_cycle_def)
  next
    case (Inr res)
    obtain messages next_iterator fin where res: "res = (messages, next_iterator, fin)"
      by (cases res)
    obtain r2 tr2 where e2: "process_messages messages tr1 = (r2, tr2)"
      by (cases "process_messages messages tr1")
    then have "verify_calls tr2 = verify_calls tr1"
      using process_messages_no_verify [of messages tr1] by simp
    with Inr res e e2 v show ?thesis
      by (simp add: poll_cycle_def split: sum.splits)
  qed
qed

lemma poll_loop_no_verify:
  "verify_calls (snd (poll_loop sessions endpoint_url api_key poll_interval iterator tr)) =
     verify_calls tr"
proof (induction sessions arbitrary: iterator tr)
  case Nil
  show ?case by simp
next
  case (Cons session sessions)
  obtain r tr1 where e: "poll_cycle session endpoint_url api_key poll_interval iterator tr = (r, tr1)"
    by (cases "poll_cycle session endpoint_url api_key poll_interval iterator tr")
  then have "verify_calls tr1 = verify_calls tr"
    using poll_cycle_no_verify [of session endpoint_url api_key poll_interval iterator tr] by simp
  with e Cons.IH [of _ tr1] show ?case by (cases r) simp_all
qed

lemma main_no_verify: "verify_calls (snd (main mkdir open_log env sessions)) = 0"
proof -
  have "verify_calls (snd (run_poller sessions u k 30 [Log INFO m])) = 0" for u k m
    by (simp add: run_poller_def poll_loop_no_verify)
  then have "run_poller sessions u k 30 [Log INFO m] = (r, tr) \<Longrightarrow> verify_calls tr = 0" for u k m r tr
    by (metis snd_conv)
  then show ?thesis
    by (auto simp: main_def setup_logging_def Let_def
          split: pyval.splits prod.splits sum.splits exn.splits)
qed

text \<open>
  The wrapper passes the library's verdict on: it raises exactly what the constructor or
  \<open>verify\<close> raises, after logging a \<open>WebhookVerificationError\<close> of \<open>verify\<close>, returns exactly
  what \<open>verify\<close> returns, and never enters \<open>deploy\<close>. When \<open>verify\<close> raises is the
  library's matter.
\<close>

lemma verify_webhook_passes_verdict:
  "fst (verify_webhook Webhook wh_verify payload headers webhook_secret tr) =
     (case Webhook webhook_secret of
        Inl e \<Rightarrow> Inl e
      | Inr wh \<Rightarrow> wh_verify wh payload headers)
   \<and> deploy_calls (snd (verify_webhook Webhook wh_verify payload headers webhook_secret tr)) =
       deploy_calls tr
   \<and> snd (verify_webhook Webhook wh_verify payload headers webhook_secret tr) =
       tr @
       (case Webhook webhook_secret of
          Inl e \<Rightarrow> []
        | Inr wh \<Rightarrow>
            Verify payload headers webhook_secret #
            (case wh_verify wh payload headers of
               Inl (WebhookVerificationError m) \<Rightarrow>
                 [Log ERROR [Lit ''Webhook verification failed: '',
                             FmtExn (WebhookVerificationError m)]]
             | _ \<Rightarrow> []))"
  by (simp add: verify_webhook_def Let_def split: sum.splits exn.splits)

text \<open>
  C8. On the polling path a payload goes from its envelope straight to
  \<open>process_webhook_payload\<close>: neither \<open>process_messages\<close>, nor the poll loop, nor \<open>main\<close>
  ever calls the library's \<open>verify\<close>. Only \<open>verify_webhook\<close> does, once and only when the
  constructor of the verifier has not raised, and nothing in the program calls
  \<open>verify_webhook\<close>.
\<close>

theorem polling_path_never_verifies:
  "verify_calls (snd (process_messages messages tr)) = verify_calls tr
   \<and> verify_calls (snd (run_poller sessions endpoint_url api_key poll_interval tr)) = verify_calls tr
   \<and> verify_calls (snd (main mkdir open_log env sessions)) = 0
   \<and> verify_calls (snd (verify_webhook Webhook wh_verify payload headers webhook_secret tr)) =
       (case Webhook webhook_secret of
          Inl e \<Rightarrow> verify_calls tr
        | Inr wh \<Rightarrow> Suc (verify_calls tr))"
proof -
  have "verify_calls (snd (verify_webhook Webhook wh_verify payload headers webhook_secret tr)) =
       (case Webhook webhook_secret of
          Inl e \<Rightarrow> verify_calls tr
        | Inr wh \<Rightarrow> Suc (verify_calls tr))"
    by (simp add: verify_webhook_def Let_def split: sum.splits exn.splits)
  then show ?thesis
    by (simp add: process_messages_no_verify run_poller_def poll_loop_no_verify main_no_verify)
qed

theorem polling_path_never_verifies_witness:
  "verify_calls (snd (process_messages
      (PList [PDict [(''id'', PStr ''m1''),
                     (''payload'', PDict [(''ref'', PStr ''refs/heads/main'')])]]) [])) = 0
   \<and> verify_calls (snd (main (Inr ()) (Inr ()) (\<lambda>name. Some ''x'')
        [\<lambda>url headers. Inr (Response 200 (Inr (PDict [(''data'', PList [PDict []])])))])) = 0
   \<and> verify_calls (snd (verify_webhook
        (\<lambda>secret. Inr secret)
        (\<lambda>wh payload headers. Inl (WebhookVerificationError ''No matching signature found''))
        ''{}'' [] ''whsec_c2VjcmV0'' [])) = 1
   \<and> verify_calls (snd (verify_webhook
        (\<lambda>secret. Inl (OtherException ''RuntimeError'' ''Secret can not be empty'') :: exn + string)
        (\<lambda>wh payload headers. Inr (PDict []) :: exn + pyval)
        ''{}'' [] [] [])) = 0"
  using polling_path_never_verifies
    [of "PList [PDict [(''id'', PStr ''m1''),
                       (''payload'', PDict [(''ref'', PStr ''refs/heads/main'')])]]" "[]"
        "[\<lambda>url headers. Inr (Response 200 (Inr (PDict [(''data'', PList [PDict []])])))]"
        "''x''" "''x''" 30 "Inr ()" "Inr ()" "\<lambda>name. Some ''x''"
        "\<lambda>secret. Inr secret"
        "\<lambda>wh payload headers. Inl (WebhookVerificationError ''No matching signature found'')"
        "''{}''" "[]" "''whsec_c2VjcmV0''"]
    polling_path_never_verifies
    [of PNone "[]" "[]" "''x''" "''x''" 30 "Inr ()" "Inr ()" "\<lambda>name. None"
        "\<lambda>secret. Inl (OtherException ''RuntimeError'' ''Secret can not be empty'') :: exn + string"
        "\<lambda>wh payload headers. Inr (PDict []) :: exn + pyval"
        "''{}''" "[]" "[]"]
  by simp

section \<open>Exit status\<close>

text \<open>
  A batch element that is not a dict takes the whole process down: the exception that
  leaves \<open>process_messages\<close> leaves the poll loop, and \<open>main\<close> exits with status 1.
\<close>

lemma main_exits_on_non_dict_message:
  "fst (main (Inr ()) (Inr ())
          (\<lambda>name. if name = ''SVIX_ENDPOINT_URL'' then Some ''https://e/poll''
                   else if name = ''SVIX_API_KEY'' then Some ''key'' else None)
          [\<lambda>url headers. Inr (Response 200 (Inr (PDict
              [(''data'', PList [PStr ''oops'',
                  PDict [(''id'', PStr ''m1''),
                         (''payload'', PDict [(''ref'', PStr ''refs/heads/main'')])]])])))]) =
     Some 1"
  by (simp add: main_def setup_logging_def getenv_def run_poller_def poll_cycle_def
        poll_messages_def poll_url_def method_get_def dict_get_def process_messages_def
        process_message_def process_message_try_def no_attribute_get_def)

text \<open>
  C9, as stated, fails: \<open>setup_logging()\<close> runs first and outside any \<open>try\<close>. When the log
  directory cannot be created the exception leaves \<open>main\<close>: with both variables unset the
  process exits with status 1 and has logged nothing.
\<close>

theorem main_setup_logging_failure:
  "main (Inl (OtherException ''PermissionError'' ''[Errno 13] Permission denied'')) (Inr ())
        (\<lambda>name. None) [] = (Some 1, [])"
  by (simp add: main_def setup_logging_def)

text \<open>
  C9, amended. Once logging has been set up: if \<open>SVIX_ENDPOINT_URL\<close> or \<open>SVIX_API_KEY\<close> is
  not set, \<open>main\<close> logs the error and the process exits with status 0; the trace is that
  one log record, so no fetch was made. If both are set and an instance of \<open>Exception\<close>
  leaves the poll loop, \<open>main\<close> logs it as a fatal error and the process exits with
  status 1.
\<close>

theorem main_exit_status:
  "(env ''SVIX_ENDPOINT_URL'' = None \<or> env ''SVIX_API_KEY'' = None \<longrightarrow>
      main (Inr ()) (Inr ()) env sessions =
        (Some 0,
         [Log ERROR [Lit ''SVIX_ENDPOINT_URL and SVIX_API_KEY must be set in environment'']])
      \<and> fetches (snd (main (Inr ()) (Inr ()) env sessions)) = [])
   \<and> (env ''SVIX_ENDPOINT_URL'' = Some u \<and> u \<noteq> [] \<and> env ''SVIX_API_KEY'' = Some k \<and> k \<noteq> []
       \<and> run_poller sessions u k 30
            [Log INFO [Lit ''Starting Svix poller for endpoint: '', Fmt (PStr u)]] = (Inl e, tr)
       \<and> is_Exception e \<longrightarrow>
      main (Inr ()) (Inr ()) env sessions =
        (Some 1, tr @ [Log ERROR [Lit ''Fatal error: '', FmtExn e]]))"
  by (cases e) (auto simp: main_def setup_logging_def getenv_def Let_def split: option.splits)

theorem main_exit_status_witness:
  "main (Inr ()) (Inr ()) (\<lambda>name. None) [] =
     (Some 0, [Log ERROR [Lit ''SVIX_ENDPOINT_URL and SVIX_API_KEY must be set in environment'']])
   \<and> fst (main (Inr ()) (Inr ())
            (\<lambda>name. if name = ''SVIX_ENDPOINT_URL'' then Some ''https://e/poll''
                      else if name = ''SVIX_API_KEY'' then Some ''key'' else None)
            [\<lambda>url headers. Inr (Response 200 (Inr (PDict [(''data'', PInt 5)])))]) = Some 1"
proof -
  let ?env = "\<lambda>name. if name = ''SVIX_ENDPOINT_URL'' then Some ''https://e/poll''
                      else if name = ''SVIX_API_KEY'' then Some ''key'' else None"
  let ?ss = "[\<lambda>url headers. Inr (Response 200 (Inr (PDict [(''data'', PInt 5)])))] :: session list"
  have run: "run_poller ?ss ''https://e/poll'' ''key'' 30
          [Log INFO [Lit ''Starting Svix poller for endpoint: '', Fmt (PStr ''https://e/poll'')]] =
        (Inl (TypeError ([CHR 39] @ ''int'' @ [CHR 39] @ '' object is not iterable'')),
         [Log INFO [Lit ''Starting Svix poller for endpoint: '', Fmt (PStr ''https://e/poll'')],
          Get [Lit ''https://e/poll''] (poll_headers ''key'')])"
    by (simp add: run_poller_def poll_cycle_def poll_messages_def method_get_def dict_get_def
          process_messages_def poll_url_def)
  show ?thesis
    using main_exit_status [of "\<lambda>name. None" "[]"]
      main_exit_status [of ?env ?ss "''https://e/poll''" "''key''"
             "TypeError ([CHR 39] @ ''int'' @ [CHR 39] @ '' object is not iterable'')"
             "[Log INFO [Lit ''Starting Svix poller for endpoint: '', Fmt (PStr ''https://e/poll'')],
               Get [Lit ''https://e/poll''] (poll_headers ''key'')]"] run
    by simp
qed

end
